theory Spec2Isabelle
  imports Main
begin

section \<open>The type phases of the Poke compiler (pkl-typify.c)\<close>

text \<open>
  The phase \<open>typify1\<close> annotates the nodes of the abstract syntax tree with their types,
  bottom-up: the post-order handler of a node runs after the handlers of its children, so
  it reads the type attributes of the children and writes the one of the node.

  Each handler of \<^verbatim>\<open>pkl-typify.c\<close> is embedded as a function from what the handler reads
  (the types of the children, and for a funcall the code of the parent node) to either the
  diagnostic it reports or what it writes into the tree. A handler that reports a
  diagnostic runs \<^verbatim>\<open>pkl_error (...); payload->errors++; PKL_PASS_ERROR;\<close> and nothing
  after it: that exit is the value \<open>Inl\<close> of the diagnostic. \<^verbatim>\<open>PKL_PASS_DONE\<close> leaves the
  handler with what has been written so far: the value \<open>Inr\<close>. The two macros are defined
  in \<^verbatim>\<open>pkl-pass.h\<close>, which is not among the sources at hand; the spec describes them so
  (an error aborts, done skips the rest of the handler), and the handlers are written for
  that reading: \<^verbatim>\<open>TYPIFY_BIN\<close> has \<^verbatim>\<open>PKL_PASS_DONE\<close> right above its label \<^verbatim>\<open>error\<close>,
  and the indexer would use a variable never set if \<^verbatim>\<open>PKL_PASS_ERROR\<close> returned.

  Source locations, reference counts and the restart flag of the traversal are not part
  of the model. The size of an integral type is a natural number: the sizes in a program
  are small, and no sum of two of them wraps around.
\<close>

subsection \<open>Type nodes\<close>

datatype pkl_ast_type_code =
    PKL_TYPE_INTEGRAL
  | PKL_TYPE_STRING
  | PKL_TYPE_ARRAY
  | PKL_TYPE_STRUCT
  | PKL_TYPE_FUNCTION
  | PKL_TYPE_OFFSET
  | PKL_TYPE_ANY
  | PKL_TYPE_VOID

text \<open>
  Modelled from the spec: the declarations of the nodes are in \<^verbatim>\<open>pkl-ast.h\<close>, which is not
  among the sources at hand. The attributes are the ones the accessor macros used in
  \<^verbatim>\<open>pkl-typify.c\<close> read, with the names of the macros: an integral type has a size in bits
  and a signedness flag (0 or 1, here a \<open>bool\<close>); an array type has the type of its
  elements and an optional expression for their number; a struct type has a chain of
  element types, each with an optional name; a function type has a return type and a
  chain of formal arguments, each with a type, an optional name and the flags
  \<open>optional\<close> and \<open>vararg\<close>; an offset type has a base type and a unit, an expression.

  Of an expression node that stands inside a type only its own type attribute is kept
  (\<open>EXPRESSION\<close>), and for an integer literal its value (\<open>INTEGER\<close>, what
  \<^verbatim>\<open>pkl_ast_make_integer\<close> builds, with the type the handler attaches to it).
\<close>

datatype pkl_ast_type =
    Integral (PKL_AST_TYPE_I_SIZE: nat) (PKL_AST_TYPE_I_SIGNED: bool)
  | String_type
  | Array_type (PKL_AST_TYPE_A_ETYPE: pkl_ast_type)
      (PKL_AST_TYPE_A_NELEM: "pkl_ast_node option")
  | Struct_type (PKL_AST_TYPE_S_ELEMS: "pkl_ast_struct_elem_type list")
  | Function_type (PKL_AST_TYPE_F_RTYPE: pkl_ast_type)
      (PKL_AST_TYPE_F_ARGS: "pkl_ast_func_type_arg list")
  | Offset_type (PKL_AST_TYPE_O_BASE_TYPE: pkl_ast_type) (PKL_AST_TYPE_O_UNIT: pkl_ast_node)
  | Any_type
  | Void_type
and pkl_ast_node =
    INTEGER (PKL_AST_INTEGER_VALUE: nat) (PKL_AST_TYPE: pkl_ast_type)
  | EXPRESSION (PKL_AST_TYPE: pkl_ast_type)
and pkl_ast_struct_elem_type =
    STRUCT_ELEM_TYPE (PKL_AST_STRUCT_ELEM_TYPE_NAME: "string option")
      (PKL_AST_STRUCT_ELEM_TYPE_TYPE: pkl_ast_type)
and pkl_ast_func_type_arg =
    FUNC_TYPE_ARG (PKL_AST_FUNC_TYPE_ARG_TYPE: pkl_ast_type)
      (PKL_AST_FUNC_TYPE_ARG_NAME: "string option")
      (PKL_AST_FUNC_TYPE_ARG_OPTIONAL: bool)
      (PKL_AST_FUNC_TYPE_ARG_VARARG: bool)

fun PKL_AST_TYPE_CODE :: "pkl_ast_type \<Rightarrow> pkl_ast_type_code" where
  "PKL_AST_TYPE_CODE (Integral sz signed_p) = PKL_TYPE_INTEGRAL"
| "PKL_AST_TYPE_CODE String_type = PKL_TYPE_STRING"
| "PKL_AST_TYPE_CODE (Array_type etype nelem) = PKL_TYPE_ARRAY"
| "PKL_AST_TYPE_CODE (Struct_type elems) = PKL_TYPE_STRUCT"
| "PKL_AST_TYPE_CODE (Function_type rtype args) = PKL_TYPE_FUNCTION"
| "PKL_AST_TYPE_CODE (Offset_type base_type unit) = PKL_TYPE_OFFSET"
| "PKL_AST_TYPE_CODE Any_type = PKL_TYPE_ANY"
| "PKL_AST_TYPE_CODE Void_type = PKL_TYPE_VOID"

text \<open>
  Modelled from the spec: \<^verbatim>\<open>pkl_ast_type_equal\<close> is defined in \<^verbatim>\<open>pkl-ast.c\<close>, which is not
  among the sources at hand. The spec describes it as structural equality on types; its
  C result is 1 for equal types and 0 otherwise.
\<close>

definition pkl_ast_type_equal :: "pkl_ast_type \<Rightarrow> pkl_ast_type \<Rightarrow> nat" where
  "pkl_ast_type_equal a b = (if a = b then 1 else 0)"

text \<open>
  Modelled from the spec: the constant \<^verbatim>\<open>PKL_AST_OFFSET_UNIT_BITS\<close> is defined in
  \<^verbatim>\<open>pkl-ast.h\<close>. A unit is a number of bits, so the unit "bits" is 1.
\<close>

definition PKL_AST_OFFSET_UNIT_BITS :: nat where
  "PKL_AST_OFFSET_UNIT_BITS = 1"

text \<open>The macro \<^verbatim>\<open>MAX(A,B) ((A) > (B) ? (A) : (B))\<close>.\<close>

definition MAX_macro :: "nat \<Rightarrow> nat \<Rightarrow> nat" where
  "MAX_macro A B = (if A > B then A else B)"

subsection \<open>Diagnostics\<close>

text \<open>
  One constructor for each call of \<^verbatim>\<open>pkl_error\<close> (and \<^verbatim>\<open>pkl_ice\<close>, \<^verbatim>\<open>assert\<close>) in the
  handlers below, named after its message:
  \<^item> \<open>INVALID_OPERAND_TO_NOT\<close>: invalid operand to NOT
  \<^item> \<open>INVALID_OPERANDS_TO_RELATIONAL\<close>: invalid operands to relational operator
  \<^item> \<open>CAST_TO_ANY\<close>: casting a value to any is not allowed
  \<^item> \<open>CAST_TO_FUNCTION\<close>: casting a value to a function type is not allowed
  \<^item> \<open>CAST_FROM_FUNCTION\<close>: casting a function to any other type is not allowed
  \<^item> \<open>INVALID_CAST_TO_STRING\<close>: invalid cast to string. Expected a uint<8>.
  \<^item> \<open>INVALID_OPERANDS\<close>: invalid operands in expression
  \<^item> \<open>REQUIRES_INTEGRAL_ARGUMENTS\<close>: operator requires integral arguments
  \<^item> \<open>BCONC_WIDTH_EXCEEDS_64\<close>: the sum of the width o the operators should not exceed
    64-bit
  \<^item> \<open>TRIMMER_INDEX_NOT_INTEGER\<close>: index in trimmer should be an integer
  \<^item> \<open>INTEGRAL_WIDTH_OUT_OF_RANGE\<close>: the width of an integral type should be in the
    [1,64] range
  \<^item> \<open>EXPECTED_INTEGRAL_OR_OFFSET\<close>: expected integral or offset value
  \<^item> \<open>INVALID_TYPE_IN_STRUCT_ELEMENT\<close>: invalid type in struct element
  \<^item> \<open>ATTRIBUTE_NOT_DEFINED\<close>: attribute is not defined for values of type
  \<^item> \<open>ICE_UNHANDLED_ATTRIBUTE\<close>: unhandled attribute expression code in typify1
  \<^item> \<open>NOT_A_FUNCTION\<close>: variable is not a function
  \<^item> \<open>TOO_FEW_ARGUMENTS\<close>: too few arguments passed to function
  \<^item> \<open>TOO_MANY_ARGUMENTS\<close>: too many arguments passed to function
  \<^item> \<open>NO_NAMED_ARGUMENTS\<close>: function doesn't take named arguments
  \<^item> \<open>NO_SUCH_ARGUMENT\<close>: function doesn't take a (name) argument
  \<^item> \<open>REQUIRED_ARGUMENT_MISSING\<close>: required argument (name) not specified in funcall
  \<^item> \<open>ARGUMENT_WRONG_TYPE\<close>: function argument has the wrong type
  \<^item> \<open>FUNCTION_RETURNS_NO_VALUE\<close>: function doesn't return a value
  \<^item> \<open>ASSERTION_FAILED\<close>: an \<^verbatim>\<open>assert\<close> that fails
  \<^item> \<open>ARRAY_INITIALIZERS_DIFFER\<close>: array initializers should be of the same type
  \<^item> \<open>OPERAND_NOT_ARRAY_OR_STRING\<close>: operator to [] must be an arry or a string
  \<^item> \<open>INDEX_NOT_INTEGER\<close>: index should be an integer
  \<^item> \<open>EXPECTED_STRUCT\<close>: expected struct
  \<^item> \<open>NO_SUCH_FIELD\<close>: referred field doesn't exist in struct
  \<^item> \<open>EXPECTED_OFFSET\<close>: expected offset
  \<^item> \<open>EXPECTED_STRUCT_TYPE\<close>: expected struct type in constructor
  \<^item> \<open>ASSIGNMENT_WRONG_TYPE\<close>: r-value in assignment has the wrong type
  \<^item> \<open>EXPECTED_ARRAY_OR_STRING\<close>: expected array or string
  \<^item> \<open>EXPECTED_BOOLEAN\<close>: expected boolean expression
  \<^item> \<open>EXPECTED_STRING\<close>: expected a string
  \<^item> \<open>RAISE_NOT_INTEGRAL\<close>: exception in raise statement should be an integral
    number.
  \<^item> \<open>EXPECTED_INT32_EXCEPTION\<close>: expected int<32> for exception type
  \<^item> \<open>INVALID_EXCEPTION_NUMBER\<close>: invalid exception number
  \<^item> \<open>RETURN_WRONG_TYPE\<close>: returning an expression of the wrong type
\<close>

datatype error =
    INVALID_OPERAND_TO_NOT
  | INVALID_OPERANDS_TO_RELATIONAL
  | CAST_TO_ANY
  | CAST_TO_FUNCTION
  | CAST_FROM_FUNCTION
  | INVALID_CAST_TO_STRING
  | INVALID_OPERANDS
  | REQUIRES_INTEGRAL_ARGUMENTS
  | BCONC_WIDTH_EXCEEDS_64
  | TRIMMER_INDEX_NOT_INTEGER
  | INTEGRAL_WIDTH_OUT_OF_RANGE
  | EXPECTED_INTEGRAL_OR_OFFSET
  | INVALID_TYPE_IN_STRUCT_ELEMENT
  | ATTRIBUTE_NOT_DEFINED
  | ICE_UNHANDLED_ATTRIBUTE
  | NOT_A_FUNCTION
  | TOO_FEW_ARGUMENTS
  | TOO_MANY_ARGUMENTS
  | NO_NAMED_ARGUMENTS
  | NO_SUCH_ARGUMENT string
  | REQUIRED_ARGUMENT_MISSING "string option"
  | ARGUMENT_WRONG_TYPE
  | FUNCTION_RETURNS_NO_VALUE
  | ASSERTION_FAILED
  | ARRAY_INITIALIZERS_DIFFER
  | OPERAND_NOT_ARRAY_OR_STRING
  | INDEX_NOT_INTEGER
  | EXPECTED_STRUCT
  | NO_SUCH_FIELD
  | EXPECTED_OFFSET
  | EXPECTED_STRUCT_TYPE
  | ASSIGNMENT_WRONG_TYPE
  | EXPECTED_ARRAY_OR_STRING
  | EXPECTED_BOOLEAN
  | EXPECTED_STRING
  | RAISE_NOT_INTEGRAL
  | EXPECTED_INT32_EXCEPTION
  | INVALID_EXCEPTION_NUMBER
  | RETURN_WRONG_TYPE

subsection \<open>Operators\<close>

text \<open>
  Modelled from the spec: the enumeration of the operator codes is declared in
  \<^verbatim>\<open>pkl-ast.h\<close>; these are the codes for which \<^verbatim>\<open>pkl_phase_typify1\<close> registers a handler.
\<close>

datatype pkl_ast_op =
    PKL_AST_OP_SIZEOF
  | PKL_AST_OP_NOT
  | PKL_AST_OP_EQ
  | PKL_AST_OP_NE
  | PKL_AST_OP_LT
  | PKL_AST_OP_GT
  | PKL_AST_OP_LE
  | PKL_AST_OP_GE
  | PKL_AST_OP_AND
  | PKL_AST_OP_OR
  | PKL_AST_OP_ADD
  | PKL_AST_OP_SUB
  | PKL_AST_OP_MUL
  | PKL_AST_OP_DIV
  | PKL_AST_OP_MOD
  | PKL_AST_OP_SL
  | PKL_AST_OP_SR
  | PKL_AST_OP_IOR
  | PKL_AST_OP_XOR
  | PKL_AST_OP_BAND
  | PKL_AST_OP_ATTR
  | PKL_AST_OP_NEG
  | PKL_AST_OP_POS
  | PKL_AST_OP_BNOT
  | PKL_AST_OP_BCONC

text \<open>\<^verbatim>\<open>pkl_typify1_ps_op_not\<close>: the operand of NOT is integral, the result a boolean,
  \<open>int<32>\<close>.\<close>

definition pkl_typify1_ps_op_not :: "pkl_ast_type \<Rightarrow> error + pkl_ast_type" where
  "pkl_typify1_ps_op_not op_type =
     (if PKL_AST_TYPE_CODE op_type \<noteq> PKL_TYPE_INTEGRAL then Inl INVALID_OPERAND_TO_NOT
      else Inr (Integral 32 True))"

text \<open>\<^verbatim>\<open>pkl_typify1_ps_op_rela\<close>: EQ, NE, LT, GT, LE and GE.\<close>

definition pkl_typify1_ps_op_rela ::
  "pkl_ast_type \<Rightarrow> pkl_ast_type \<Rightarrow> error + pkl_ast_type" where
  "pkl_typify1_ps_op_rela op1_type op2_type =
     (let op1_type_code = PKL_AST_TYPE_CODE op1_type;
          op2_type_code = PKL_AST_TYPE_CODE op2_type
      in if op1_type_code = op2_type_code
            \<and> (op1_type_code = PKL_TYPE_INTEGRAL
                \<or> op1_type_code = PKL_TYPE_STRING
                \<or> op1_type_code = PKL_TYPE_OFFSET)
         then Inr (Integral 32 True)
         else Inl INVALID_OPERANDS_TO_RELATIONAL)"

text \<open>\<^verbatim>\<open>pkl_typify1_ps_op_boolean\<close>: AND and OR.\<close>

definition pkl_typify1_ps_op_boolean ::
  "pkl_ast_type \<Rightarrow> pkl_ast_type \<Rightarrow> error + pkl_ast_type" where
  "pkl_typify1_ps_op_boolean op1_type op2_type = Inr (Integral 32 True)"

text \<open>\<^verbatim>\<open>pkl_typify1_ps_first_operand\<close>: the type of the node is the type of its operand 0.\<close>

definition pkl_typify1_ps_first_operand :: "pkl_ast_type \<Rightarrow> error + pkl_ast_type" where
  "pkl_typify1_ps_first_operand operand_type = Inr operand_type"

subsection \<open>ISA and CAST\<close>

text \<open>
  \<^verbatim>\<open>pkl_typify1_ps_isa\<close> either replaces the node (\<^verbatim>\<open>PKL_PASS_NODE = ...\<close>, with a restart
  of the traversal on the new node) or sets the type of the node and leaves it for
  run-time. It reports no diagnostic.
\<close>

datatype isa_result =
    Replaced_by pkl_ast_node
  | Typed_as pkl_ast_type

definition pkl_typify1_ps_isa :: "pkl_ast_type \<Rightarrow> pkl_ast_type \<Rightarrow> isa_result" where
  "pkl_typify1_ps_isa isa_type isa_exp_type =
     (let bool_type = Integral 32 True
      in if PKL_AST_TYPE_CODE isa_type = PKL_TYPE_ANY
         then Replaced_by (INTEGER 1 bool_type)
         else if PKL_AST_TYPE_CODE isa_exp_type \<noteq> PKL_TYPE_ANY
         then Replaced_by (INTEGER (pkl_ast_type_equal isa_type isa_exp_type) bool_type)
         else Typed_as bool_type)"

text \<open>\<^verbatim>\<open>pkl_typify1_ps_cast\<close>, from the target type of the cast and the type of the
  expression that is cast.\<close>

definition pkl_typify1_ps_cast :: "pkl_ast_type \<Rightarrow> pkl_ast_type \<Rightarrow> error + pkl_ast_type" where
  "pkl_typify1_ps_cast type_node exp_type =
     (if PKL_AST_TYPE_CODE type_node = PKL_TYPE_ANY then Inl CAST_TO_ANY
      else if PKL_AST_TYPE_CODE type_node = PKL_TYPE_FUNCTION then Inl CAST_TO_FUNCTION
      else if PKL_AST_TYPE_CODE exp_type = PKL_TYPE_FUNCTION then Inl CAST_FROM_FUNCTION
      else if PKL_AST_TYPE_CODE type_node = PKL_TYPE_STRING
              \<and> (PKL_AST_TYPE_CODE exp_type \<noteq> PKL_TYPE_INTEGRAL
                  \<or> PKL_AST_TYPE_I_SIGNED exp_type \<noteq> False
                  \<or> PKL_AST_TYPE_I_SIZE exp_type \<noteq> 8)
      then Inl INVALID_CAST_TO_STRING
      else Inr type_node)"

subsection \<open>Binary arithmetic and bitwise operators: the macro TYPIFY_BIN\<close>

text \<open>
  The macro \<^verbatim>\<open>TYPIFY_BIN (OP)\<close> expands to the handler \<^verbatim>\<open>pkl_typify1_ps_OP\<close>. Its body
  is the same for every operator but for the three macros \<^verbatim>\<open>CASE_STR\<close>, \<^verbatim>\<open>CASE_OFFSET\<close>
  and \<^verbatim>\<open>CASE_INTEGRAL\<close>, which stand for a case of the switch over the type code of the
  operands and are redefined between the expansions. Here the three are arguments:
  \<open>None\<close> for a macro defined empty (no such case, so the switch takes its default and
  the operands are invalid), \<open>Some f\<close> for a case that computes the type \<open>f t1 t2\<close>.
\<close>

definition TYPIFY_BIN ::
  "(pkl_ast_type \<Rightarrow> pkl_ast_type \<Rightarrow> error + pkl_ast_type) option \<Rightarrow>
   (pkl_ast_type \<Rightarrow> pkl_ast_type \<Rightarrow> error + pkl_ast_type) option \<Rightarrow>
   (pkl_ast_type \<Rightarrow> pkl_ast_type \<Rightarrow> error + pkl_ast_type) option \<Rightarrow>
   pkl_ast_type \<Rightarrow> pkl_ast_type \<Rightarrow> error + pkl_ast_type" where
  "TYPIFY_BIN CASE_STR CASE_OFFSET CASE_INTEGRAL t1 t2 =
     (if PKL_AST_TYPE_CODE t1 \<noteq> PKL_AST_TYPE_CODE t2 then Inl INVALID_OPERANDS
      else (case PKL_AST_TYPE_CODE t1 of
          PKL_TYPE_STRING \<Rightarrow>
            (case CASE_STR of Some f \<Rightarrow> f t1 t2 | None \<Rightarrow> Inl INVALID_OPERANDS)
        | PKL_TYPE_OFFSET \<Rightarrow>
            (case CASE_OFFSET of Some f \<Rightarrow> f t1 t2 | None \<Rightarrow> Inl INVALID_OPERANDS)
        | PKL_TYPE_INTEGRAL \<Rightarrow>
            (case CASE_INTEGRAL of Some f \<Rightarrow> f t1 t2 | None \<Rightarrow> Inl INVALID_OPERANDS)
        | _ \<Rightarrow> Inl INVALID_OPERANDS))"

text \<open>\<^verbatim>\<open>CASE_INTEGRAL\<close> as defined for SL and SR: the type of the first operand.\<close>

definition CASE_INTEGRAL_shift :: "pkl_ast_type \<Rightarrow> pkl_ast_type \<Rightarrow> error + pkl_ast_type" where
  "CASE_INTEGRAL_shift t1 t2 =
     (let signed_p = PKL_AST_TYPE_I_SIGNED t1;
          sz = PKL_AST_TYPE_I_SIZE t1
      in Inr (Integral sz signed_p))"

text \<open>\<^verbatim>\<open>CASE_INTEGRAL\<close> as defined from IOR on: the widest size, signed when both are.\<close>

definition CASE_INTEGRAL_promote :: "pkl_ast_type \<Rightarrow> pkl_ast_type \<Rightarrow> error + pkl_ast_type" where
  "CASE_INTEGRAL_promote t1 t2 =
     (let signed_p = (PKL_AST_TYPE_I_SIGNED t1 \<and> PKL_AST_TYPE_I_SIGNED t2);
          sz = MAX_macro (PKL_AST_TYPE_I_SIZE t1) (PKL_AST_TYPE_I_SIZE t2)
      in Inr (Integral sz signed_p))"

text \<open>\<^verbatim>\<open>CASE_OFFSET\<close> as defined for DIV and MOD; it reads the code of the expression.\<close>

definition CASE_OFFSET_div_mod ::
  "pkl_ast_op \<Rightarrow> pkl_ast_type \<Rightarrow> pkl_ast_type \<Rightarrow> error + pkl_ast_type" where
  "CASE_OFFSET_div_mod exp_code t1 t2 =
     (let base_type_1 = PKL_AST_TYPE_O_BASE_TYPE t1;
          base_type_2 = PKL_AST_TYPE_O_BASE_TYPE t2
      in if exp_code = PKL_AST_OP_DIV
         then (let base_type_1_size = PKL_AST_TYPE_I_SIZE base_type_1;
                   base_type_2_size = PKL_AST_TYPE_I_SIZE base_type_2;
                   base_type_1_signed = PKL_AST_TYPE_I_SIGNED base_type_1;
                   base_type_2_signed = PKL_AST_TYPE_I_SIGNED base_type_2;
                   signed_p = (base_type_1_signed \<and> base_type_2_signed);
                   sz = MAX_macro base_type_1_size base_type_2_size
               in Inr (Integral sz signed_p))
         else if exp_code = PKL_AST_OP_MOD
         then Inr (Offset_type base_type_1 (PKL_AST_TYPE_O_UNIT t2))
         else Inl ASSERTION_FAILED)"

text \<open>
  \<^verbatim>\<open>CASE_OFFSET\<close> as defined before \<^verbatim>\<open>TYPIFY_BIN (sub)\<close>. It is not redefined before
  \<^verbatim>\<open>TYPIFY_BIN (add)\<close>, so ADD has the same case. The unit of the result is the integer
  literal 1 of type \<open>uint<64>\<close> ("Use bits for now").
\<close>

definition CASE_OFFSET_sub :: "pkl_ast_type \<Rightarrow> pkl_ast_type \<Rightarrow> error + pkl_ast_type" where
  "CASE_OFFSET_sub t1 t2 =
     (let base_type_1 = PKL_AST_TYPE_O_BASE_TYPE t1;
          base_type_2 = PKL_AST_TYPE_O_BASE_TYPE t2;
          signed_p = (PKL_AST_TYPE_I_SIGNED base_type_1 \<and> PKL_AST_TYPE_I_SIGNED base_type_2);
          sz = MAX_macro (PKL_AST_TYPE_I_SIZE base_type_1) (PKL_AST_TYPE_I_SIZE base_type_2);
          base_type = Integral sz signed_p;
          unit_type = Integral 64 False;
          unit = INTEGER 1 unit_type
      in Inr (Offset_type base_type unit))"

text \<open>\<^verbatim>\<open>CASE_STR\<close> as defined before \<^verbatim>\<open>TYPIFY_BIN (add)\<close>.\<close>

definition CASE_STR_add :: "pkl_ast_type \<Rightarrow> pkl_ast_type \<Rightarrow> error + pkl_ast_type" where
  "CASE_STR_add t1 t2 = Inr String_type"

text \<open>The expansions, in the order of the file, each with the macros in force there.\<close>

definition pkl_typify1_ps_sl :: "pkl_ast_type \<Rightarrow> pkl_ast_type \<Rightarrow> error + pkl_ast_type" where
  "pkl_typify1_ps_sl = TYPIFY_BIN None None (Some CASE_INTEGRAL_shift)"

definition pkl_typify1_ps_sr :: "pkl_ast_type \<Rightarrow> pkl_ast_type \<Rightarrow> error + pkl_ast_type" where
  "pkl_typify1_ps_sr = TYPIFY_BIN None None (Some CASE_INTEGRAL_shift)"

definition pkl_typify1_ps_ior :: "pkl_ast_type \<Rightarrow> pkl_ast_type \<Rightarrow> error + pkl_ast_type" where
  "pkl_typify1_ps_ior = TYPIFY_BIN None None (Some CASE_INTEGRAL_promote)"

definition pkl_typify1_ps_xor :: "pkl_ast_type \<Rightarrow> pkl_ast_type \<Rightarrow> error + pkl_ast_type" where
  "pkl_typify1_ps_xor = TYPIFY_BIN None None (Some CASE_INTEGRAL_promote)"

definition pkl_typify1_ps_band :: "pkl_ast_type \<Rightarrow> pkl_ast_type \<Rightarrow> error + pkl_ast_type" where
  "pkl_typify1_ps_band = TYPIFY_BIN None None (Some CASE_INTEGRAL_promote)"

definition pkl_typify1_ps_div :: "pkl_ast_type \<Rightarrow> pkl_ast_type \<Rightarrow> error + pkl_ast_type" where
  "pkl_typify1_ps_div =
     TYPIFY_BIN None (Some (CASE_OFFSET_div_mod PKL_AST_OP_DIV)) (Some CASE_INTEGRAL_promote)"

definition pkl_typify1_ps_mod :: "pkl_ast_type \<Rightarrow> pkl_ast_type \<Rightarrow> error + pkl_ast_type" where
  "pkl_typify1_ps_mod =
     TYPIFY_BIN None (Some (CASE_OFFSET_div_mod PKL_AST_OP_MOD)) (Some CASE_INTEGRAL_promote)"

definition pkl_typify1_ps_sub :: "pkl_ast_type \<Rightarrow> pkl_ast_type \<Rightarrow> error + pkl_ast_type" where
  "pkl_typify1_ps_sub = TYPIFY_BIN None (Some CASE_OFFSET_sub) (Some CASE_INTEGRAL_promote)"

definition pkl_typify1_ps_add :: "pkl_ast_type \<Rightarrow> pkl_ast_type \<Rightarrow> error + pkl_ast_type" where
  "pkl_typify1_ps_add =
     TYPIFY_BIN (Some CASE_STR_add) (Some CASE_OFFSET_sub) (Some CASE_INTEGRAL_promote)"

text \<open>\<^verbatim>\<open>pkl_typify1_ps_mul\<close> is written out by hand in the source; it uses the macros
  \<^verbatim>\<open>CASE_STR\<close> and \<^verbatim>\<open>CASE_INTEGRAL\<close> in force after ADD.\<close>

definition pkl_typify1_ps_mul :: "pkl_ast_type \<Rightarrow> pkl_ast_type \<Rightarrow> error + pkl_ast_type" where
  "pkl_typify1_ps_mul t1 t2 =
     (let t1_code = PKL_AST_TYPE_CODE t1;
          t2_code = PKL_AST_TYPE_CODE t2
      in if t1_code = PKL_TYPE_OFFSET \<or> t2_code = PKL_TYPE_OFFSET
         then (if (t1_code = PKL_TYPE_INTEGRAL \<and> t2_code = PKL_TYPE_OFFSET)
                  \<or> (t1_code = PKL_TYPE_OFFSET \<and> t2_code = PKL_TYPE_INTEGRAL)
               then (let offset_type = (if t1_code = PKL_TYPE_INTEGRAL then t2 else t1);
                         int_type = (if t1_code = PKL_TYPE_INTEGRAL then t1 else t2);
                         offset_base_type = PKL_AST_TYPE_O_BASE_TYPE offset_type;
                         signed_p = (PKL_AST_TYPE_I_SIGNED offset_base_type
                                     \<and> PKL_AST_TYPE_I_SIGNED int_type);
                         sz = MAX_macro (PKL_AST_TYPE_I_SIZE offset_base_type)
                                (PKL_AST_TYPE_I_SIZE int_type);
                         res_base_type = Integral sz signed_p
                     in Inr (Offset_type res_base_type (PKL_AST_TYPE_O_UNIT offset_type)))
               else Inl INVALID_OPERANDS)
         else if PKL_AST_TYPE_CODE t1 \<noteq> PKL_AST_TYPE_CODE t2 then Inl INVALID_OPERANDS
         else (case PKL_AST_TYPE_CODE t1 of
             PKL_TYPE_STRING \<Rightarrow> CASE_STR_add t1 t2
           | PKL_TYPE_INTEGRAL \<Rightarrow> CASE_INTEGRAL_promote t1 t2
           | _ \<Rightarrow> Inl INVALID_OPERANDS))"

text \<open>\<^verbatim>\<open>pkl_typify1_ps_op_bconc\<close>: bit concatenation.\<close>

definition pkl_typify1_ps_op_bconc ::
  "pkl_ast_type \<Rightarrow> pkl_ast_type \<Rightarrow> error + pkl_ast_type" where
  "pkl_typify1_ps_op_bconc t1 t2 =
     (if PKL_AST_TYPE_CODE t1 \<noteq> PKL_TYPE_INTEGRAL \<or> PKL_AST_TYPE_CODE t2 \<noteq> PKL_TYPE_INTEGRAL
      then Inl REQUIRES_INTEGRAL_ARGUMENTS
      else if PKL_AST_TYPE_I_SIZE t1 + PKL_AST_TYPE_I_SIZE t2 > 64
      then Inl BCONC_WIDTH_EXCEEDS_64
      else Inr (Integral (PKL_AST_TYPE_I_SIZE t1 + PKL_AST_TYPE_I_SIZE t2)
                  (PKL_AST_TYPE_I_SIGNED t1)))"

text \<open>\<^verbatim>\<open>pkl_typify1_ps_op_sizeof\<close> reads nothing of its operand. The unit shares the type
  node \<open>itype\<close> of the magnitude.\<close>

definition pkl_typify1_ps_op_sizeof :: "error + pkl_ast_type" where
  "pkl_typify1_ps_op_sizeof =
     (let itype = Integral 64 False;
          unit = INTEGER PKL_AST_OFFSET_UNIT_BITS itype
      in Inr (Offset_type itype unit))"

text \<open>\<^verbatim>\<open>pkl_typify1_ps_trimmer\<close>, from the types of the trimmed entity and of the two
  indexes.\<close>

definition pkl_typify1_ps_trimmer ::
  "pkl_ast_type \<Rightarrow> pkl_ast_type \<Rightarrow> pkl_ast_type \<Rightarrow> error + pkl_ast_type" where
  "pkl_typify1_ps_trimmer entity_type from_idx_type to_idx_type =
     (if PKL_AST_TYPE_CODE from_idx_type \<noteq> PKL_TYPE_INTEGRAL
      then Inl TRIMMER_INDEX_NOT_INTEGER
      else if PKL_AST_TYPE_CODE to_idx_type \<noteq> PKL_TYPE_INTEGRAL
      then Inl TRIMMER_INDEX_NOT_INTEGER
      else Inr entity_type)"

subsection \<open>Attributes\<close>

text \<open>
  Modelled from the spec: the enumeration \<^verbatim>\<open>pkl_ast_attr\<close> is declared in \<^verbatim>\<open>pkl-ast.h\<close>.
  These are the attributes the handler has a case for; \<open>PKL_AST_ATTR_NONE\<close> stands for
  any other value, which takes the default of the switch.
\<close>

datatype pkl_ast_attr =
    PKL_AST_ATTR_SIZE
  | PKL_AST_ATTR_SIGNED
  | PKL_AST_ATTR_MAGNITUDE
  | PKL_AST_ATTR_UNIT
  | PKL_AST_ATTR_LENGTH
  | PKL_AST_ATTR_ALIGNMENT
  | PKL_AST_ATTR_OFFSET
  | PKL_AST_ATTR_MAPPED
  | PKL_AST_ATTR_NONE

text \<open>\<^verbatim>\<open>pkl_typify1_ps_attr\<close>, from the attribute and the type of the operand.\<close>

definition pkl_typify1_ps_attr :: "pkl_ast_attr \<Rightarrow> pkl_ast_type \<Rightarrow> error + pkl_ast_type" where
  "pkl_typify1_ps_attr attr operand_type =
     (case attr of
        PKL_AST_ATTR_SIZE \<Rightarrow>
          (if PKL_AST_TYPE_CODE operand_type \<in>
                {PKL_TYPE_INTEGRAL, PKL_TYPE_STRING, PKL_TYPE_ARRAY, PKL_TYPE_STRUCT,
                 PKL_TYPE_OFFSET}
           then (let offset_unit_type = Integral 64 False;
                     offset_unit = INTEGER 1 offset_unit_type;
                     exp_type = Integral 64 False
                 in Inr (Offset_type exp_type offset_unit))
           else Inl ATTRIBUTE_NOT_DEFINED)
      | PKL_AST_ATTR_SIGNED \<Rightarrow>
          (if PKL_AST_TYPE_CODE operand_type \<noteq> PKL_TYPE_INTEGRAL then Inl ATTRIBUTE_NOT_DEFINED
           else Inr (Integral 32 True))
      | PKL_AST_ATTR_MAGNITUDE \<Rightarrow>
          (if PKL_AST_TYPE_CODE operand_type \<noteq> PKL_TYPE_OFFSET then Inl ATTRIBUTE_NOT_DEFINED
           else Inr (Integral 64 False))
      | PKL_AST_ATTR_UNIT \<Rightarrow>
          (if PKL_AST_TYPE_CODE operand_type \<noteq> PKL_TYPE_OFFSET then Inl ATTRIBUTE_NOT_DEFINED
           else Inr (Integral 64 False))
      | PKL_AST_ATTR_LENGTH \<Rightarrow>
          (if PKL_AST_TYPE_CODE operand_type \<in>
                {PKL_TYPE_ARRAY, PKL_TYPE_STRUCT, PKL_TYPE_STRING}
           then Inr (Integral 64 False)
           else Inl ATTRIBUTE_NOT_DEFINED)
      | PKL_AST_ATTR_ALIGNMENT \<Rightarrow>
          (if PKL_AST_TYPE_CODE operand_type \<noteq> PKL_TYPE_STRUCT then Inl ATTRIBUTE_NOT_DEFINED
           else Inr (Integral 64 False))
      | PKL_AST_ATTR_OFFSET \<Rightarrow>
          (if PKL_AST_TYPE_CODE operand_type \<in> {PKL_TYPE_ARRAY, PKL_TYPE_STRUCT}
           then (let offset_unit_type = Integral 64 False;
                     offset_unit = INTEGER 1 offset_unit_type;
                     exp_type = Integral 64 False
                 in Inr (Offset_type exp_type offset_unit))
           else Inl ATTRIBUTE_NOT_DEFINED)
      | PKL_AST_ATTR_MAPPED \<Rightarrow> Inr (Integral 32 True)
      | PKL_AST_ATTR_NONE \<Rightarrow> Inl ICE_UNHANDLED_ATTRIBUTE)"

subsection \<open>The operator handlers of the phase\<close>

text \<open>
  The entries \<^verbatim>\<open>PKL_PHASE_PS_OP_HANDLER\<close> of \<^verbatim>\<open>pkl_phase_typify1\<close>: the handler that runs
  on an expression node with the given operator code, applied to the types of the
  operands. \<open>None\<close>: the table has no handler of that shape for the code.
\<close>

fun pkl_phase_typify1_unary ::
  "pkl_ast_op \<Rightarrow> pkl_ast_type \<Rightarrow> (error + pkl_ast_type) option" where
  "pkl_phase_typify1_unary PKL_AST_OP_SIZEOF t = Some pkl_typify1_ps_op_sizeof"
| "pkl_phase_typify1_unary PKL_AST_OP_NOT t = Some (pkl_typify1_ps_op_not t)"
| "pkl_phase_typify1_unary PKL_AST_OP_NEG t = Some (pkl_typify1_ps_first_operand t)"
| "pkl_phase_typify1_unary PKL_AST_OP_POS t = Some (pkl_typify1_ps_first_operand t)"
| "pkl_phase_typify1_unary PKL_AST_OP_BNOT t = Some (pkl_typify1_ps_first_operand t)"
| "pkl_phase_typify1_unary _ t = None"

fun pkl_phase_typify1_binary ::
  "pkl_ast_op \<Rightarrow> pkl_ast_type \<Rightarrow> pkl_ast_type \<Rightarrow> (error + pkl_ast_type) option" where
  "pkl_phase_typify1_binary PKL_AST_OP_EQ t1 t2 = Some (pkl_typify1_ps_op_rela t1 t2)"
| "pkl_phase_typify1_binary PKL_AST_OP_NE t1 t2 = Some (pkl_typify1_ps_op_rela t1 t2)"
| "pkl_phase_typify1_binary PKL_AST_OP_LT t1 t2 = Some (pkl_typify1_ps_op_rela t1 t2)"
| "pkl_phase_typify1_binary PKL_AST_OP_GT t1 t2 = Some (pkl_typify1_ps_op_rela t1 t2)"
| "pkl_phase_typify1_binary PKL_AST_OP_LE t1 t2 = Some (pkl_typify1_ps_op_rela t1 t2)"
| "pkl_phase_typify1_binary PKL_AST_OP_GE t1 t2 = Some (pkl_typify1_ps_op_rela t1 t2)"
| "pkl_phase_typify1_binary PKL_AST_OP_AND t1 t2 = Some (pkl_typify1_ps_op_boolean t1 t2)"
| "pkl_phase_typify1_binary PKL_AST_OP_OR t1 t2 = Some (pkl_typify1_ps_op_boolean t1 t2)"
| "pkl_phase_typify1_binary PKL_AST_OP_ADD t1 t2 = Some (pkl_typify1_ps_add t1 t2)"
| "pkl_phase_typify1_binary PKL_AST_OP_SUB t1 t2 = Some (pkl_typify1_ps_sub t1 t2)"
| "pkl_phase_typify1_binary PKL_AST_OP_MUL t1 t2 = Some (pkl_typify1_ps_mul t1 t2)"
| "pkl_phase_typify1_binary PKL_AST_OP_DIV t1 t2 = Some (pkl_typify1_ps_div t1 t2)"
| "pkl_phase_typify1_binary PKL_AST_OP_MOD t1 t2 = Some (pkl_typify1_ps_mod t1 t2)"
| "pkl_phase_typify1_binary PKL_AST_OP_SL t1 t2 = Some (pkl_typify1_ps_sl t1 t2)"
| "pkl_phase_typify1_binary PKL_AST_OP_SR t1 t2 = Some (pkl_typify1_ps_sr t1 t2)"
| "pkl_phase_typify1_binary PKL_AST_OP_IOR t1 t2 = Some (pkl_typify1_ps_ior t1 t2)"
| "pkl_phase_typify1_binary PKL_AST_OP_XOR t1 t2 = Some (pkl_typify1_ps_xor t1 t2)"
| "pkl_phase_typify1_binary PKL_AST_OP_BAND t1 t2 = Some (pkl_typify1_ps_band t1 t2)"
| "pkl_phase_typify1_binary PKL_AST_OP_BCONC t1 t2 = Some (pkl_typify1_ps_op_bconc t1 t2)"
| "pkl_phase_typify1_binary _ t1 t2 = None"

subsection \<open>Function calls\<close>

text \<open>
  Modelled from the spec: the enumeration of the node codes is declared in \<^verbatim>\<open>pkl-ast.h\<close>.
  These are the codes that \<^verbatim>\<open>pkl-typify.c\<close> names, and the codes of the statements that
  hold an expression or other statements (a funcall in statement position is the child of
  an expression statement).
\<close>

datatype pkl_ast_code =
    PKL_AST_PROGRAM
  | PKL_AST_EXP
  | PKL_AST_COND_EXP
  | PKL_AST_VAR
  | PKL_AST_CAST
  | PKL_AST_ISA
  | PKL_AST_MAP
  | PKL_AST_SCONS
  | PKL_AST_OFFSET
  | PKL_AST_ARRAY
  | PKL_AST_ARRAY_INITIALIZER
  | PKL_AST_TRIMMER
  | PKL_AST_INDEXER
  | PKL_AST_STRUCT
  | PKL_AST_STRUCT_ELEM
  | PKL_AST_STRUCT_REF
  | PKL_AST_STRUCT_ELEM_TYPE
  | PKL_AST_FUNC
  | PKL_AST_FUNC_ARG
  | PKL_AST_FUNC_TYPE_ARG
  | PKL_AST_TYPE_code
  | PKL_AST_FUNCALL
  | PKL_AST_FUNCALL_ARG
  | PKL_AST_DECL
  | PKL_AST_COMP_STMT
  | PKL_AST_EXP_STMT
  | PKL_AST_ASS_STMT
  | PKL_AST_IF_STMT
  | PKL_AST_LOOP_STMT
  | PKL_AST_PRINT_STMT
  | PKL_AST_RAISE_STMT
  | PKL_AST_TRY_CATCH_STMT
  | PKL_AST_RETURN_STMT

text \<open>
  An actual argument of a funcall: its expression (already typed), its name if the call
  uses named arguments, and the mark the handler sets on the first argument that falls
  in the vararg.
\<close>

record pkl_ast_funcall_arg =
  PKL_AST_FUNCALL_ARG_EXP :: pkl_ast_node
  PKL_AST_FUNCALL_ARG_NAME :: "string option"
  PKL_AST_FUNCALL_ARG_FIRST_VARARG :: bool

text \<open>
  Modelled from the spec: the attributes \<^verbatim>\<open>PKL_AST_FUNCALL_NARG\<close> of a funcall and
  \<^verbatim>\<open>PKL_AST_TYPE_F_NARG\<close> of a function type are set where the nodes are built (the parser,
  and \<^verbatim>\<open>pkl_typify1_pr_func\<close>, which counts the formals); they hold the number of actual
  and of formal arguments.
\<close>

definition PKL_AST_FUNCALL_NARG :: "pkl_ast_funcall_arg list \<Rightarrow> nat" where
  "PKL_AST_FUNCALL_NARG funcall_args = length funcall_args"

definition PKL_AST_TYPE_F_NARG :: "pkl_ast_type \<Rightarrow> nat" where
  "PKL_AST_TYPE_F_NARG function_type = length (PKL_AST_TYPE_F_ARGS function_type)"

text \<open>The first loop of \<^verbatim>\<open>pkl_typify1_ps_funcall\<close>: count the formals up to the first
  that is optional or the vararg.\<close>

fun funcall_mandatory_args :: "nat \<Rightarrow> pkl_ast_func_type_arg list \<Rightarrow> nat" where
  "funcall_mandatory_args mandatory_args [] = mandatory_args"
| "funcall_mandatory_args mandatory_args (fa # fas) =
     (if PKL_AST_FUNC_TYPE_ARG_OPTIONAL fa \<or> PKL_AST_FUNC_TYPE_ARG_VARARG fa
      then mandatory_args
      else funcall_mandatory_args (mandatory_args + 1) fas)"

text \<open>The second loop: walk formals and actuals together; an actual that meets the
  vararg formal is marked, and \<open>vararg\<close> is set. The result is the flag and the actuals.\<close>

fun funcall_first_vararg ::
  "bool \<Rightarrow> pkl_ast_func_type_arg list \<Rightarrow> pkl_ast_funcall_arg list
     \<Rightarrow> bool \<times> pkl_ast_funcall_arg list" where
  "funcall_first_vararg vararg [] aas = (vararg, aas)"
| "funcall_first_vararg vararg (fa # fas) [] = (vararg, [])"
| "funcall_first_vararg vararg (fa # fas) (aa # aas) =
     (if PKL_AST_FUNC_TYPE_ARG_VARARG fa
      then (let (v, aas') = funcall_first_vararg True fas aas
            in (v, aa\<lparr>PKL_AST_FUNCALL_ARG_FIRST_VARARG := True\<rparr> # aas'))
      else (let (v, aas') = funcall_first_vararg vararg fas aas
            in (v, aa # aas')))"

text \<open>The search of a formal with the name of an actual: \<open>Inr found_arg\<close>, or the
  diagnostic of a formal without a name.\<close>

fun funcall_find_formal :: "string \<Rightarrow> pkl_ast_func_type_arg list \<Rightarrow> error + bool" where
  "funcall_find_formal aa_name [] = Inr False"
| "funcall_find_formal aa_name (fa # fas) =
     (case PKL_AST_FUNC_TYPE_ARG_NAME fa of
        None \<Rightarrow> Inl NO_NAMED_ARGUMENTS
      | Some fa_name \<Rightarrow>
          if aa_name = fa_name then Inr True else funcall_find_formal aa_name fas)"

text \<open>The loop over the actuals that checks their names. \<open>Inr False\<close>: an actual without
  a name was met (\<^verbatim>\<open>goto after_named\<close>); \<open>Inr True\<close>: the loop ran to its end.\<close>

fun funcall_check_names ::
  "pkl_ast_func_type_arg list \<Rightarrow> pkl_ast_funcall_arg list \<Rightarrow> error + bool" where
  "funcall_check_names fas [] = Inr True"
| "funcall_check_names fas (aa # aas) =
     (case PKL_AST_FUNCALL_ARG_NAME aa of
        None \<Rightarrow> Inr False
      | Some aa_name \<Rightarrow>
          (case funcall_find_formal aa_name fas of
             Inl e \<Rightarrow> Inl e
           | Inr found_arg \<Rightarrow>
               if \<not> found_arg then Inl (NO_SUCH_ARGUMENT aa_name)
               else funcall_check_names fas aas))"

text \<open>The search of the actual with the name of a formal, in the reordering loop.\<close>

fun funcall_find_actual ::
  "string option \<Rightarrow> pkl_ast_funcall_arg list \<Rightarrow> error + pkl_ast_funcall_arg option" where
  "funcall_find_actual fa_name [] = Inr None"
| "funcall_find_actual fa_name (aa # aas) =
     (case fa_name of
        None \<Rightarrow> Inl NO_NAMED_ARGUMENTS
      | Some name \<Rightarrow>
          if PKL_AST_FUNCALL_ARG_NAME aa = Some name then Inr (Some aa)
          else funcall_find_actual fa_name aas)"

text \<open>The reordering loop: for each formal in turn the actual of that name, rebuilt by
  \<^verbatim>\<open>pkl_ast_make_funcall_arg\<close> from its expression and name (a new node, so without the
  mark of the first vararg); a formal without an actual is skipped when it is optional or
  the vararg. At this point every actual has a name.\<close>

fun funcall_reorder ::
  "pkl_ast_func_type_arg list \<Rightarrow> pkl_ast_funcall_arg list
     \<Rightarrow> error + pkl_ast_funcall_arg list" where
  "funcall_reorder [] funcall_args = Inr []"
| "funcall_reorder (fa # fas) funcall_args =
     (case funcall_find_actual (PKL_AST_FUNC_TYPE_ARG_NAME fa) funcall_args of
        Inl e \<Rightarrow> Inl e
      | Inr None \<Rightarrow>
          if PKL_AST_FUNC_TYPE_ARG_OPTIONAL fa \<or> PKL_AST_FUNC_TYPE_ARG_VARARG fa
          then funcall_reorder fas funcall_args
          else Inl (REQUIRED_ARGUMENT_MISSING (PKL_AST_FUNC_TYPE_ARG_NAME fa))
      | Inr (Some aa) \<Rightarrow>
          (let new_aa = \<lparr>PKL_AST_FUNCALL_ARG_EXP = PKL_AST_FUNCALL_ARG_EXP aa,
                         PKL_AST_FUNCALL_ARG_NAME = PKL_AST_FUNCALL_ARG_NAME aa,
                         PKL_AST_FUNCALL_ARG_FIRST_VARARG = False\<rparr>
           in case funcall_reorder fas funcall_args of
                Inl e \<Rightarrow> Inl e
              | Inr ordered_arg_list \<Rightarrow> Inr (new_aa # ordered_arg_list)))"

text \<open>The last loop: the type of each actual against the type of the formal at the same
  position.\<close>

fun funcall_check_types ::
  "pkl_ast_func_type_arg list \<Rightarrow> pkl_ast_funcall_arg list \<Rightarrow> error + unit" where
  "funcall_check_types [] aas = Inr ()"
| "funcall_check_types (fa # fas) [] = Inr ()"
| "funcall_check_types (fa # fas) (aa # aas) =
     (let fa_type = PKL_AST_FUNC_TYPE_ARG_TYPE fa;
          aa_exp = PKL_AST_FUNCALL_ARG_EXP aa;
          aa_type = PKL_AST_TYPE aa_exp
      in if \<not> PKL_AST_FUNC_TYPE_ARG_VARARG fa \<and> pkl_ast_type_equal fa_type aa_type = 0
         then (if PKL_AST_TYPE_CODE fa_type = PKL_TYPE_ANY
                  \<or> (PKL_AST_TYPE_CODE aa_type = PKL_TYPE_INTEGRAL
                      \<and> PKL_AST_TYPE_CODE fa_type = PKL_TYPE_INTEGRAL)
                  \<or> (PKL_AST_TYPE_CODE aa_type = PKL_TYPE_OFFSET
                      \<and> PKL_AST_TYPE_CODE fa_type = PKL_TYPE_OFFSET)
               then funcall_check_types fas aas
               else Inl ARGUMENT_WRONG_TYPE)
         else funcall_check_types fas aas)"

text \<open>
  The handler \<^verbatim>\<open>pkl_typify1_ps_funcall\<close> is given in two parts. The first is the body up
  to the end of the loop over the types of the arguments: from the type of the called
  function and the actual arguments, the diagnostic of the first check that fails or the
  list of actuals the handler leaves in the funcall.
\<close>

definition pkl_typify1_ps_funcall_args ::
  "pkl_ast_type \<Rightarrow> pkl_ast_funcall_arg list \<Rightarrow> error + pkl_ast_funcall_arg list" where
  "pkl_typify1_ps_funcall_args funcall_function_type funcall_args =
     (if PKL_AST_TYPE_CODE funcall_function_type \<noteq> PKL_TYPE_FUNCTION then Inl NOT_A_FUNCTION
      else
        let mandatory_args =
              funcall_mandatory_args 0 (PKL_AST_TYPE_F_ARGS funcall_function_type)
        in if PKL_AST_FUNCALL_NARG funcall_args < mandatory_args then Inl TOO_FEW_ARGUMENTS
           else
             let (vararg, marked_args) =
                   funcall_first_vararg False (PKL_AST_TYPE_F_ARGS funcall_function_type)
                     funcall_args
             in if \<not> vararg
                   \<and> PKL_AST_FUNCALL_NARG funcall_args
                       > PKL_AST_TYPE_F_NARG funcall_function_type
                then Inl TOO_MANY_ARGUMENTS
                else
                  (case (case funcall_check_names (PKL_AST_TYPE_F_ARGS funcall_function_type)
                                marked_args of
                           Inl e \<Rightarrow> Inl e
                         | Inr False \<Rightarrow> Inr marked_args
                         | Inr True \<Rightarrow>
                             funcall_reorder (PKL_AST_TYPE_F_ARGS funcall_function_type)
                               marked_args) of
                     Inl e \<Rightarrow> Inl e
                   | Inr final_args \<Rightarrow>
                       (case funcall_check_types (PKL_AST_TYPE_F_ARGS funcall_function_type)
                               final_args of
                          Inl e \<Rightarrow> Inl e
                        | Inr u \<Rightarrow> Inr final_args)))"

text \<open>
  The second part sets the type of the funcall, the return type of the function, and
  checks the parent of a funcall of a void function. The result is the type of the
  funcall and its list of actuals.
\<close>

definition pkl_typify1_ps_funcall ::
  "pkl_ast_type \<Rightarrow> pkl_ast_funcall_arg list \<Rightarrow> pkl_ast_code
     \<Rightarrow> error + (pkl_ast_type \<times> pkl_ast_funcall_arg list)" where
  "pkl_typify1_ps_funcall funcall_function_type funcall_args parent_code =
     (case pkl_typify1_ps_funcall_args funcall_function_type funcall_args of
        Inl e \<Rightarrow> Inl e
      | Inr final_args \<Rightarrow>
          (let funcall_type = PKL_AST_TYPE_F_RTYPE funcall_function_type
           in if PKL_AST_TYPE_CODE funcall_type = PKL_TYPE_VOID
                 \<and> (parent_code = PKL_AST_EXP
                     \<or> parent_code = PKL_AST_COND_EXP
                     \<or> parent_code = PKL_AST_ARRAY_INITIALIZER
                     \<or> parent_code = PKL_AST_INDEXER
                     \<or> parent_code = PKL_AST_STRUCT_ELEM
                     \<or> parent_code = PKL_AST_OFFSET
                     \<or> parent_code = PKL_AST_CAST
                     \<or> parent_code = PKL_AST_MAP
                     \<or> parent_code = PKL_AST_FUNCALL
                     \<or> parent_code = PKL_AST_FUNCALL_ARG
                     \<or> parent_code = PKL_AST_DECL)
              then Inl FUNCTION_RETURNS_NO_VALUE
              else Inr (funcall_type, final_args)))"

subsection \<open>Type nodes in the program\<close>





subsection \<open>The other handlers of the phase\<close>




















subsection \<open>Programs\<close>






text \<open>
  Modelled from the spec: the traversal driver is in \<^verbatim>\<open>pkl-pass.c\<close>, which is not among the
  sources at hand. As the spec describes it, the driver visits the children of a node and
  then calls the post-order handler registered for the node in \<^verbatim>\<open>pkl_phase_typify1\<close>; a
  handler that reports an error aborts the traversal. The pre-order handler of a function
  builds the type of the function from the nodes of its formal arguments and of its
  return type, which the traversal then visits. The pre-order handler of a loop runs the
  traversal on the container, on the condition and on the body itself (the subpasses);
  there the parent of the node is taken to be the loop statement.

  Several handlers set \<^verbatim>\<open>PKL_PASS_RESTART\<close> once they have given the node its type: those
  of \<open>isa\<close> (when it replaces the node), of a cast, an offset, an array, an indexer, a
  struct, a struct element, a struct reference and an array type. The spec describes the
  flag as a new visit of the subtree by the driver. A new visit by this phase finds the
  same types again (the literal that replaces an \<open>isa\<close> has no handler), so the flag is
  left out here.

  A variable refers to its declaration; here the declarations in scope are a list of
  names with the types of their initial values, the last declaration first. The formal
  arguments of a function are in scope in its body, with their types, and so is the
  function; the iterator of a loop is in scope in the condition and in the body; the
  argument of a handler is in scope in the handler.

  The result of the traversal of a node is what the phase leaves in the tree below and at
  the node: the type of the node, where it has one (for a type node, the type it denotes);
  the list of all the types in the tree (the types written in the program, the types of
  the literals, and the types the handlers attach to the nodes); and the list of the types
  that come from the lexer. An \<open>isa\<close> that is decided at compile time leaves only the
  literal that replaces it.
\<close>







subsection \<open>The types in a tree\<close>




section \<open>Properties of the handlers\<close>

subsection \<open>Auxiliary facts\<close>

lemma funcall_mandatory_args_takeWhile:
  "funcall_mandatory_args m fas =
     m + length (takeWhile (\<lambda>fa. \<not> PKL_AST_FUNC_TYPE_ARG_OPTIONAL fa
                               \<and> \<not> PKL_AST_FUNC_TYPE_ARG_VARARG fa) fas)"
  by (induction fas arbitrary: m) auto

lemma funcall_mandatory_args_le: "funcall_mandatory_args 0 fas \<le> length fas"
  by (simp add: funcall_mandatory_args_takeWhile length_takeWhile_le)

lemma funcall_first_vararg_none:
  "\<forall>fa \<in> set fas. \<not> PKL_AST_FUNC_TYPE_ARG_VARARG fa \<Longrightarrow>
     fst (funcall_first_vararg vararg fas aas) = vararg"
  by (induction vararg fas aas rule: funcall_first_vararg.induct)
     (auto split: prod.splits)

lemma funcall_find_formal_error:
  "funcall_find_formal aa_name fas = Inl e \<Longrightarrow> e = NO_NAMED_ARGUMENTS"
  by (induction fas) (auto split: option.splits if_splits)

lemma funcall_check_names_error:
  "funcall_check_names fas aas = Inl e \<Longrightarrow>
     e = NO_NAMED_ARGUMENTS \<or> (\<exists>n. e = NO_SUCH_ARGUMENT n)"
  by (induction aas)
     (auto split: option.splits sum.splits if_splits dest: funcall_find_formal_error)

lemma funcall_find_actual_error:
  "funcall_find_actual fa_name aas = Inl e \<Longrightarrow> e = NO_NAMED_ARGUMENTS"
  by (induction aas) (auto split: option.splits if_splits)

lemma funcall_reorder_error:
  "funcall_reorder fas aas = Inl e \<Longrightarrow>
     e = NO_NAMED_ARGUMENTS \<or> (\<exists>n. e = REQUIRED_ARGUMENT_MISSING n)"
  by (induction fas)
     (auto simp: Let_def split: option.splits sum.splits if_splits
           dest: funcall_find_actual_error)

lemma funcall_check_types_error:
  "funcall_check_types fas aas = Inl e \<Longrightarrow> e = ARGUMENT_WRONG_TYPE"
  by (induction fas aas rule: funcall_check_types.induct)
     (auto simp: Let_def split: if_splits)

text \<open>The diagnostics of the first part of the funcall handler, each with the condition
  under which it is the one reported.\<close>

lemma funcall_args_cases:
  "pkl_typify1_ps_funcall_args (Function_type rtype fargs) aas = Inl e \<Longrightarrow>
     (e = TOO_FEW_ARGUMENTS \<and> length aas < funcall_mandatory_args 0 fargs)
   \<or> (e = TOO_MANY_ARGUMENTS \<and> \<not> length aas < funcall_mandatory_args 0 fargs
        \<and> \<not> fst (funcall_first_vararg False fargs aas) \<and> length aas > length fargs)
   \<or> (e \<notin> {TOO_FEW_ARGUMENTS, TOO_MANY_ARGUMENTS, FUNCTION_RETURNS_NO_VALUE}
        \<and> \<not> length aas < funcall_mandatory_args 0 fargs
        \<and> \<not> (\<not> fst (funcall_first_vararg False fargs aas) \<and> length aas > length fargs))"
  unfolding pkl_typify1_ps_funcall_args_def PKL_AST_FUNCALL_NARG_def PKL_AST_TYPE_F_NARG_def
  by (auto simp: Let_def split: if_splits prod.splits sum.splits bool.splits
           dest!: funcall_check_names_error funcall_reorder_error funcall_check_types_error)

lemma funcall_error_from_args:
  "pkl_typify1_ps_funcall function_type aas parent_code = Inl e \<Longrightarrow>
   e \<noteq> FUNCTION_RETURNS_NO_VALUE \<Longrightarrow>
   pkl_typify1_ps_funcall_args function_type aas = Inl e"
  by (auto simp: pkl_typify1_ps_funcall_def Let_def split: sum.splits if_splits)

subsection \<open>Unary operators\<close>

text \<open>
  C9. For every unary NEG, POS or BNOT expression the handler registered in the phase
  assigns to the expression exactly the type of its operand and reports no diagnostic,
  whatever the type of the operand is: a string, an array, a struct, a function, any or
  void operand is accepted like an integral one.
\<close>

theorem unary_first_operand:
  "pkl_phase_typify1_unary PKL_AST_OP_NEG t = Some (Inr t)
   \<and> pkl_phase_typify1_unary PKL_AST_OP_POS t = Some (Inr t)
   \<and> pkl_phase_typify1_unary PKL_AST_OP_BNOT t = Some (Inr t)"
  by (simp add: pkl_typify1_ps_first_operand_def)

text \<open>The rule at a string, a function, an any, a void, a struct and an array operand.\<close>

theorem unary_first_operand_witness:
  "pkl_phase_typify1_unary PKL_AST_OP_NEG String_type = Some (Inr String_type)
   \<and> pkl_phase_typify1_unary PKL_AST_OP_POS (Function_type Void_type []) =
        Some (Inr (Function_type Void_type []))
   \<and> pkl_phase_typify1_unary PKL_AST_OP_BNOT Any_type = Some (Inr Any_type)
   \<and> pkl_phase_typify1_unary PKL_AST_OP_NEG Void_type = Some (Inr Void_type)
   \<and> pkl_phase_typify1_unary PKL_AST_OP_BNOT (Struct_type []) = Some (Inr (Struct_type []))
   \<and> pkl_phase_typify1_unary PKL_AST_OP_POS (Array_type String_type None) =
        Some (Inr (Array_type String_type None))"
  using unary_first_operand [of String_type]
    unary_first_operand [of "Function_type Void_type []"]
    unary_first_operand [of Any_type]
    unary_first_operand [of Void_type]
    unary_first_operand [of "Struct_type []"]
    unary_first_operand [of "Array_type String_type None"]
  by blast

subsection \<open>Trimmers\<close>

text \<open>
  C10. For every trimmer \<open>a[i:j]\<close> the handler reports a diagnostic exactly when the
  type of \<open>i\<close> or the type of \<open>j\<close> is not integral. The type of the trimmed entity is
  not inspected: with integral indexes an entity of any type is accepted, and the type of
  the trimmer is the type of the entity.
\<close>

theorem trimmer_typing:
  "((\<exists>e. pkl_typify1_ps_trimmer entity_type from_idx_type to_idx_type = Inl e)
      \<longleftrightarrow> (PKL_AST_TYPE_CODE from_idx_type \<noteq> PKL_TYPE_INTEGRAL
           \<or> PKL_AST_TYPE_CODE to_idx_type \<noteq> PKL_TYPE_INTEGRAL))
   \<and> (PKL_AST_TYPE_CODE from_idx_type = PKL_TYPE_INTEGRAL
        \<and> PKL_AST_TYPE_CODE to_idx_type = PKL_TYPE_INTEGRAL
      \<longrightarrow> pkl_typify1_ps_trimmer entity_type from_idx_type to_idx_type = Inr entity_type)"
  by (auto simp: pkl_typify1_ps_trimmer_def)

text \<open>A trimmer of an integral entity is accepted; a string index is refused.\<close>

theorem trimmer_typing_witness:
  "pkl_typify1_ps_trimmer (Integral 32 True) (Integral 64 False) (Integral 8 True)
     = Inr (Integral 32 True)
   \<and> (\<exists>e. pkl_typify1_ps_trimmer (Array_type String_type None) String_type (Integral 64 False)
            = Inl e)"
  using trimmer_typing [of "Integral 32 True" "Integral 64 False" "Integral 8 True"]
    trimmer_typing [of "Array_type String_type None" String_type "Integral 64 False"]
  by simp

subsection \<open>Bit concatenation\<close>

text \<open>
  C2. For every bit concatenation \<open>a::b\<close> the handler reports a diagnostic exactly when
  an operand is not integral or the sum of the two sizes is greater than 64; otherwise
  the type of the expression is the integral type of the sum of the sizes, with the
  signedness of the first operand. Two operands of 32 bits are accepted, with a result
  of 64 bits; operands of 33 and 32 bits are refused.
\<close>

theorem bconc_typing:
  "((\<exists>e. pkl_phase_typify1_binary PKL_AST_OP_BCONC t1 t2 = Some (Inl e))
      \<longleftrightarrow> (PKL_AST_TYPE_CODE t1 \<noteq> PKL_TYPE_INTEGRAL
           \<or> PKL_AST_TYPE_CODE t2 \<noteq> PKL_TYPE_INTEGRAL
           \<or> PKL_AST_TYPE_I_SIZE t1 + PKL_AST_TYPE_I_SIZE t2 > 64))
   \<and> (\<not> (\<exists>e. pkl_phase_typify1_binary PKL_AST_OP_BCONC t1 t2 = Some (Inl e))
      \<longrightarrow> pkl_phase_typify1_binary PKL_AST_OP_BCONC t1 t2
            = Some (Inr (Integral (PKL_AST_TYPE_I_SIZE t1 + PKL_AST_TYPE_I_SIZE t2)
                           (PKL_AST_TYPE_I_SIGNED t1))))
   \<and> pkl_phase_typify1_binary PKL_AST_OP_BCONC (Integral 32 signedA) (Integral 32 signedB)
        = Some (Inr (Integral 64 signedA))
   \<and> pkl_phase_typify1_binary PKL_AST_OP_BCONC (Integral 33 signedA) (Integral 32 signedB)
        = Some (Inl BCONC_WIDTH_EXCEEDS_64)"
  by (auto simp: pkl_typify1_ps_op_bconc_def)

text \<open>The rule at 16 and 48 bits, at 16 and 49 bits, and at a string operand.\<close>

theorem bconc_typing_witness:
  "pkl_phase_typify1_binary PKL_AST_OP_BCONC (Integral 16 False) (Integral 48 True)
     = Some (Inr (Integral 64 False))
   \<and> (\<exists>e. pkl_phase_typify1_binary PKL_AST_OP_BCONC (Integral 16 False) (Integral 49 True)
            = Some (Inl e))
   \<and> (\<exists>e. pkl_phase_typify1_binary PKL_AST_OP_BCONC String_type (Integral 8 True)
            = Some (Inl e))"
  using bconc_typing [of "Integral 16 False" "Integral 48 True"]
    bconc_typing [of "Integral 16 False" "Integral 49 True"]
    bconc_typing [of String_type "Integral 8 True"]
  by simp

subsection \<open>Casts\<close>

text \<open>
  C4. For every cast the handler reports a diagnostic when the target type is \<open>any\<close>,
  when the target type is a function type, and when the type of the expression is a
  function type. A cast to \<open>string\<close> is accepted if and only if the type of the
  expression is exactly \<open>uint<8>\<close>. Whenever no diagnostic is reported the type of the
  cast is the target type.
\<close>

theorem cast_typing:
  "(pkl_typify1_ps_cast type_node exp_type = Inr type_node
      \<longleftrightarrow> PKL_AST_TYPE_CODE type_node \<noteq> PKL_TYPE_ANY
          \<and> PKL_AST_TYPE_CODE type_node \<noteq> PKL_TYPE_FUNCTION
          \<and> PKL_AST_TYPE_CODE exp_type \<noteq> PKL_TYPE_FUNCTION
          \<and> (PKL_AST_TYPE_CODE type_node = PKL_TYPE_STRING
               \<longrightarrow> exp_type = Integral 8 False))
   \<and> ((\<exists>e. pkl_typify1_ps_cast type_node exp_type = Inl e)
      \<longleftrightarrow> PKL_AST_TYPE_CODE type_node = PKL_TYPE_ANY
          \<or> PKL_AST_TYPE_CODE type_node = PKL_TYPE_FUNCTION
          \<or> PKL_AST_TYPE_CODE exp_type = PKL_TYPE_FUNCTION
          \<or> (PKL_AST_TYPE_CODE type_node = PKL_TYPE_STRING
              \<and> exp_type \<noteq> Integral 8 False))
   \<and> (PKL_AST_TYPE_CODE type_node = PKL_TYPE_ANY
      \<longrightarrow> pkl_typify1_ps_cast type_node exp_type = Inl CAST_TO_ANY)
   \<and> (PKL_AST_TYPE_CODE type_node = PKL_TYPE_FUNCTION
      \<longrightarrow> pkl_typify1_ps_cast type_node exp_type = Inl CAST_TO_FUNCTION)
   \<and> (PKL_AST_TYPE_CODE exp_type = PKL_TYPE_FUNCTION
      \<longrightarrow> (\<exists>e. pkl_typify1_ps_cast type_node exp_type = Inl e))
   \<and> (PKL_AST_TYPE_CODE type_node = PKL_TYPE_STRING
      \<longrightarrow> ((\<exists>r. pkl_typify1_ps_cast type_node exp_type = Inr r)
            \<longleftrightarrow> exp_type = Integral 8 False))
   \<and> (\<forall>r. pkl_typify1_ps_cast type_node exp_type = Inr r \<longrightarrow> r = type_node)"
  by (cases exp_type) (auto simp: pkl_typify1_ps_cast_def)

text \<open>The rule at a cast to \<open>any\<close>, to and from a function type, at the casts of
  \<open>uint<8>\<close> and of \<open>int<8>\<close> to \<open>string\<close>, and at the casts of a \<open>uint<16>\<close> to
  \<open>int<32>\<close> and of a string to an array type, which are accepted with the target
  type.\<close>

theorem cast_typing_witness:
  "pkl_typify1_ps_cast Any_type (Integral 32 True) = Inl CAST_TO_ANY
   \<and> pkl_typify1_ps_cast (Function_type Void_type []) (Integral 32 True) = Inl CAST_TO_FUNCTION
   \<and> (\<exists>e. pkl_typify1_ps_cast (Integral 32 True) (Function_type Void_type []) = Inl e)
   \<and> (\<exists>r. pkl_typify1_ps_cast String_type (Integral 8 False) = Inr r)
   \<and> \<not> (\<exists>r. pkl_typify1_ps_cast String_type (Integral 8 True) = Inr r)
   \<and> pkl_typify1_ps_cast (Integral 32 True) (Integral 16 False) = Inr (Integral 32 True)
   \<and> pkl_typify1_ps_cast (Array_type (Integral 8 False) None) String_type
       = Inr (Array_type (Integral 8 False) None)"
proof -
  have a: "pkl_typify1_ps_cast Any_type (Integral 32 True) = Inl CAST_TO_ANY"
    using cast_typing [of Any_type "Integral 32 True"] by simp
  have b: "pkl_typify1_ps_cast (Function_type Void_type []) (Integral 32 True)
             = Inl CAST_TO_FUNCTION"
    using cast_typing [of "Function_type Void_type []" "Integral 32 True"] by simp
  have c: "\<exists>e. pkl_typify1_ps_cast (Integral 32 True) (Function_type Void_type []) = Inl e"
    using cast_typing [of "Integral 32 True" "Function_type Void_type []"] by simp
  have d: "\<exists>r. pkl_typify1_ps_cast String_type (Integral 8 False) = Inr r"
    using cast_typing [of String_type "Integral 8 False"] by simp
  have e: "\<not> (\<exists>r. pkl_typify1_ps_cast String_type (Integral 8 True) = Inr r)"
    using cast_typing [of String_type "Integral 8 True"] by simp
  have f: "pkl_typify1_ps_cast (Integral 32 True) (Integral 16 False) = Inr (Integral 32 True)"
    using cast_typing [of "Integral 32 True" "Integral 16 False"] by simp
  have g: "pkl_typify1_ps_cast (Array_type (Integral 8 False) None) String_type
             = Inr (Array_type (Integral 8 False) None)"
    using cast_typing [of "Array_type (Integral 8 False) None" String_type] by simp
  from a b c d e f g show ?thesis by blast
qed

subsection \<open>Addition of offsets\<close>

text \<open>
  C1, as stated: for every ADD expression whose two operands have offset types, the type
  of the expression is an offset type whose base is the promoted integral type and whose
  unit is the common unit (the greatest common divisor) of the units of the operands.
  That fails on the sum of two offsets in bytes: both units are 8, and the unit of the
  result is the literal 1.
\<close>

theorem add_offsets_counterexample:
  "pkl_phase_typify1_binary PKL_AST_OP_ADD
     (Offset_type (Integral 32 False) (INTEGER 8 (Integral 64 False)))
     (Offset_type (Integral 32 False) (INTEGER 8 (Integral 64 False)))
   = Some (Inr (Offset_type (Integral 32 False) (INTEGER 1 (Integral 64 False))))
   \<and> INTEGER 1 (Integral 64 False) \<noteq> INTEGER (gcd 8 8) (Integral 64 False)"
  by (simp add: pkl_typify1_ps_add_def TYPIFY_BIN_def CASE_OFFSET_sub_def MAX_macro_def)

text \<open>
  C1, amended: for every ADD expression whose two operands have offset types with
  integral base types, the type of the expression is an offset type whose base is the
  integral type of the larger of the two base sizes, signed if and only if both bases
  are signed, and whose unit is the integer literal 1 of type \<open>uint<64>\<close>, that is
  bits, whatever the units of the operands are. It is the type SUB gives to the same
  operands.
\<close>

theorem add_offsets_unit_bits:
  "pkl_phase_typify1_binary PKL_AST_OP_ADD
     (Offset_type (Integral size1 signed1) unit1) (Offset_type (Integral size2 signed2) unit2)
   = Some (Inr (Offset_type (Integral (max size1 size2) (signed1 \<and> signed2))
                  (INTEGER 1 (Integral 64 False))))
   \<and> pkl_phase_typify1_binary PKL_AST_OP_ADD
       (Offset_type (Integral size1 signed1) unit1) (Offset_type (Integral size2 signed2) unit2)
     = pkl_phase_typify1_binary PKL_AST_OP_SUB
       (Offset_type (Integral size1 signed1) unit1) (Offset_type (Integral size2 signed2) unit2)"
  by (auto simp: pkl_typify1_ps_add_def pkl_typify1_ps_sub_def TYPIFY_BIN_def
        CASE_OFFSET_sub_def MAX_macro_def max_def)

text \<open>The sum of an offset in bytes over \<open>int<16>\<close> and an offset in kilobytes over
  \<open>uint<32>\<close> is an offset in bits over \<open>uint<32>\<close>.\<close>

theorem add_offsets_unit_bits_witness:
  "pkl_phase_typify1_binary PKL_AST_OP_ADD
     (Offset_type (Integral 16 True) (INTEGER 8 (Integral 64 False)))
     (Offset_type (Integral 32 False) (INTEGER 8000 (Integral 64 False)))
   = Some (Inr (Offset_type (Integral 32 False) (INTEGER 1 (Integral 64 False))))"
  using add_offsets_unit_bits [of 16 True "INTEGER 8 (Integral 64 False)"
          32 False "INTEGER 8000 (Integral 64 False)"]
  by simp

subsection \<open>ISA\<close>

text \<open>
  C3, as stated: whenever the static type of \<open>e\<close> is not \<open>any\<close>, the node
  \<open>e isa T\<close> is replaced by the literal 1 if \<open>T\<close> is structurally equal to the type
  of \<open>e\<close>, and by the literal 0 otherwise. That fails for \<open>T = any\<close>: the type
  \<open>int<32>\<close> of \<open>e\<close> is not \<open>any\<close>, and \<open>any\<close> is not equal to \<open>int<32>\<close>, yet
  the node is replaced by the literal 1.
\<close>

theorem isa_counterexample:
  "PKL_AST_TYPE_CODE (Integral 32 True) \<noteq> PKL_TYPE_ANY
   \<and> pkl_ast_type_equal Any_type (Integral 32 True) = 0
   \<and> pkl_typify1_ps_isa Any_type (Integral 32 True)
       = Replaced_by (INTEGER 1 (Integral 32 True))"
  by (simp add: pkl_typify1_ps_isa_def pkl_ast_type_equal_def)

text \<open>
  C3, amended: for every expression \<open>e\<close>, the node \<open>e isa any\<close> is replaced by the
  integer literal 1 of type \<open>int<32>\<close>. Whenever neither the static type of \<open>e\<close> nor
  \<open>T\<close> is \<open>any\<close>, the node \<open>e isa T\<close> is replaced by the literal 1 of type
  \<open>int<32>\<close> if \<open>T\<close> is structurally equal to the type of \<open>e\<close>, and by the literal
  0 otherwise. Only when the static type of \<open>e\<close> is \<open>any\<close> and \<open>T\<close> is not \<open>any\<close>
  is the node left for run-time, with the type \<open>int<32>\<close>.
\<close>

theorem isa_rewrite:
  "(isa_type = Any_type \<longrightarrow>
      pkl_typify1_ps_isa isa_type isa_exp_type = Replaced_by (INTEGER 1 (Integral 32 True)))
   \<and> (isa_exp_type \<noteq> Any_type \<and> isa_type \<noteq> Any_type \<longrightarrow>
      pkl_typify1_ps_isa isa_type isa_exp_type
        = Replaced_by (INTEGER (if isa_type = isa_exp_type then 1 else 0) (Integral 32 True)))
   \<and> ((\<exists>t. pkl_typify1_ps_isa isa_type isa_exp_type = Typed_as t)
        \<longleftrightarrow> isa_exp_type = Any_type \<and> isa_type \<noteq> Any_type)
   \<and> (\<forall>t. pkl_typify1_ps_isa isa_type isa_exp_type = Typed_as t \<longrightarrow> t = Integral 32 True)"
  by (cases isa_type; cases isa_exp_type)
     (simp_all add: pkl_typify1_ps_isa_def pkl_ast_type_equal_def)

text \<open>The four cases: \<open>isa any\<close>, equal types, different types, and an operand of
  type \<open>any\<close>.\<close>

theorem isa_rewrite_witness:
  "pkl_typify1_ps_isa Any_type String_type = Replaced_by (INTEGER 1 (Integral 32 True))
   \<and> pkl_typify1_ps_isa String_type String_type = Replaced_by (INTEGER 1 (Integral 32 True))
   \<and> pkl_typify1_ps_isa String_type (Integral 8 False)
        = Replaced_by (INTEGER 0 (Integral 32 True))
   \<and> (\<exists>t. pkl_typify1_ps_isa String_type Any_type = Typed_as t)"
proof -
  have a: "pkl_typify1_ps_isa Any_type String_type
             = Replaced_by (INTEGER 1 (Integral 32 True))"
    using isa_rewrite [of Any_type String_type] by blast
  have b: "pkl_typify1_ps_isa String_type String_type
             = Replaced_by (INTEGER 1 (Integral 32 True))"
    using isa_rewrite [of String_type String_type] by simp
  have c: "pkl_typify1_ps_isa String_type (Integral 8 False)
             = Replaced_by (INTEGER 0 (Integral 32 True))"
    using isa_rewrite [of String_type "Integral 8 False"] by simp
  have d: "\<exists>t. pkl_typify1_ps_isa String_type Any_type = Typed_as t"
    using isa_rewrite [of String_type Any_type] by blast
  from a b c d show ?thesis by blast
qed

subsection \<open>SIZEOF and the attribute size\<close>

text \<open>
  C5. For every expression \<open>e\<close> and every operand \<open>x\<close> on which the attribute
  \<open>size\<close> is defined (an integral, a string, an array, a struct or an offset), the type
  of \<open>sizeof e\<close> and the type of the attribute \<open>size\<close> of \<open>x\<close> are structurally
  equal: both are the offset type with base \<open>uint<64>\<close> and the literal 1 (bits) as
  unit.
\<close>

theorem sizeof_and_size_attribute:
  "PKL_AST_TYPE_CODE operand_type \<in>
     {PKL_TYPE_INTEGRAL, PKL_TYPE_STRING, PKL_TYPE_ARRAY, PKL_TYPE_STRUCT, PKL_TYPE_OFFSET}
   \<Longrightarrow>
   pkl_phase_typify1_unary PKL_AST_OP_SIZEOF e_type
     = Some (Inr (Offset_type (Integral 64 False) (INTEGER 1 (Integral 64 False))))
   \<and> pkl_typify1_ps_attr PKL_AST_ATTR_SIZE operand_type
     = Inr (Offset_type (Integral 64 False) (INTEGER 1 (Integral 64 False)))
   \<and> (\<forall>t1 t2. pkl_phase_typify1_unary PKL_AST_OP_SIZEOF e_type = Some (Inr t1)
          \<and> pkl_typify1_ps_attr PKL_AST_ATTR_SIZE operand_type = Inr t2
        \<longrightarrow> pkl_ast_type_equal t1 t2 = 1)"
  by (auto simp: pkl_typify1_ps_op_sizeof_def pkl_typify1_ps_attr_def
        PKL_AST_OFFSET_UNIT_BITS_def pkl_ast_type_equal_def Let_def)

text \<open>The size of an array of strings, next to a \<open>sizeof\<close>.\<close>

theorem sizeof_and_size_attribute_witness:
  "PKL_AST_TYPE_CODE (Array_type String_type None) \<in>
     {PKL_TYPE_INTEGRAL, PKL_TYPE_STRING, PKL_TYPE_ARRAY, PKL_TYPE_STRUCT, PKL_TYPE_OFFSET}
   \<and> pkl_phase_typify1_unary PKL_AST_OP_SIZEOF (Integral 32 True)
     = Some (Inr (Offset_type (Integral 64 False) (INTEGER 1 (Integral 64 False))))
   \<and> pkl_typify1_ps_attr PKL_AST_ATTR_SIZE (Array_type String_type None)
     = Inr (Offset_type (Integral 64 False) (INTEGER 1 (Integral 64 False)))"
proof -
  have h: "PKL_AST_TYPE_CODE (Array_type String_type None) \<in>
     {PKL_TYPE_INTEGRAL, PKL_TYPE_STRING, PKL_TYPE_ARRAY, PKL_TYPE_STRUCT, PKL_TYPE_OFFSET}"
    by simp
  from sizeof_and_size_attribute [OF h, of "Integral 32 True"] h show ?thesis
    by blast
qed

subsection \<open>Function calls\<close>

text \<open>
  C7. For every funcall of a value of a function type, let the mandatory arguments be
  the formals before the first formal that is optional or the vararg. The handler
  reports "too few arguments passed to function" if and only if there are fewer actuals
  than mandatory arguments; and, when no formal is the vararg, it reports "too many
  arguments passed to function" if and only if there are more actuals than formals.
\<close>

theorem funcall_arity:
  "(pkl_typify1_ps_funcall (Function_type rtype fargs) funcall_args parent_code
      = Inl TOO_FEW_ARGUMENTS
    \<longleftrightarrow> length funcall_args
          < length (takeWhile (\<lambda>fa. \<not> PKL_AST_FUNC_TYPE_ARG_OPTIONAL fa
                                      \<and> \<not> PKL_AST_FUNC_TYPE_ARG_VARARG fa) fargs))
   \<and> ((\<forall>fa \<in> set fargs. \<not> PKL_AST_FUNC_TYPE_ARG_VARARG fa) \<longrightarrow>
        (pkl_typify1_ps_funcall (Function_type rtype fargs) funcall_args parent_code
           = Inl TOO_MANY_ARGUMENTS
         \<longleftrightarrow> length funcall_args > length fargs))"
proof (intro conjI impI)
  let ?f = "Function_type rtype fargs"
  let ?m = "funcall_mandatory_args 0 fargs"
  have m: "?m = length (takeWhile (\<lambda>fa. \<not> PKL_AST_FUNC_TYPE_ARG_OPTIONAL fa
                                      \<and> \<not> PKL_AST_FUNC_TYPE_ARG_VARARG fa) fargs)"
    by (simp add: funcall_mandatory_args_takeWhile)
  show "pkl_typify1_ps_funcall ?f funcall_args parent_code = Inl TOO_FEW_ARGUMENTS
    \<longleftrightarrow> length funcall_args
          < length (takeWhile (\<lambda>fa. \<not> PKL_AST_FUNC_TYPE_ARG_OPTIONAL fa
                                      \<and> \<not> PKL_AST_FUNC_TYPE_ARG_VARARG fa) fargs)"
  proof
    assume "pkl_typify1_ps_funcall ?f funcall_args parent_code = Inl TOO_FEW_ARGUMENTS"
    then have "pkl_typify1_ps_funcall_args ?f funcall_args = Inl TOO_FEW_ARGUMENTS"
      by (rule funcall_error_from_args) simp
    from funcall_args_cases [OF this] have "length funcall_args < ?m"
      by auto
    with m show "length funcall_args
          < length (takeWhile (\<lambda>fa. \<not> PKL_AST_FUNC_TYPE_ARG_OPTIONAL fa
                                      \<and> \<not> PKL_AST_FUNC_TYPE_ARG_VARARG fa) fargs)"
      by simp
  next
    assume "length funcall_args
          < length (takeWhile (\<lambda>fa. \<not> PKL_AST_FUNC_TYPE_ARG_OPTIONAL fa
                                      \<and> \<not> PKL_AST_FUNC_TYPE_ARG_VARARG fa) fargs)"
    with m have "length funcall_args < ?m"
      by simp
    then have "pkl_typify1_ps_funcall_args ?f funcall_args = Inl TOO_FEW_ARGUMENTS"
      by (simp add: pkl_typify1_ps_funcall_args_def PKL_AST_FUNCALL_NARG_def)
    then show "pkl_typify1_ps_funcall ?f funcall_args parent_code = Inl TOO_FEW_ARGUMENTS"
      by (simp add: pkl_typify1_ps_funcall_def)
  qed
next
  let ?f = "Function_type rtype fargs"
  assume nv: "\<forall>fa \<in> set fargs. \<not> PKL_AST_FUNC_TYPE_ARG_VARARG fa"
  show "pkl_typify1_ps_funcall ?f funcall_args parent_code = Inl TOO_MANY_ARGUMENTS
         \<longleftrightarrow> length funcall_args > length fargs"
  proof
    assume "pkl_typify1_ps_funcall ?f funcall_args parent_code = Inl TOO_MANY_ARGUMENTS"
    then have "pkl_typify1_ps_funcall_args ?f funcall_args = Inl TOO_MANY_ARGUMENTS"
      by (rule funcall_error_from_args) simp
    from funcall_args_cases [OF this] show "length funcall_args > length fargs"
      by auto
  next
    assume many: "length funcall_args > length fargs"
    have "\<not> length funcall_args < funcall_mandatory_args 0 fargs"
      using many funcall_mandatory_args_le [of fargs] by simp
    moreover obtain marked_args
      where "funcall_first_vararg False fargs funcall_args = (False, marked_args)"
      using funcall_first_vararg_none [OF nv, of False funcall_args]
      by (cases "funcall_first_vararg False fargs funcall_args") auto
    ultimately have "pkl_typify1_ps_funcall_args ?f funcall_args = Inl TOO_MANY_ARGUMENTS"
      using many
      by (simp add: pkl_typify1_ps_funcall_args_def PKL_AST_FUNCALL_NARG_def
            PKL_AST_TYPE_F_NARG_def)
    then show "pkl_typify1_ps_funcall ?f funcall_args parent_code = Inl TOO_MANY_ARGUMENTS"
      by (simp add: pkl_typify1_ps_funcall_def)
  qed
qed

text \<open>A function with a mandatory and an optional argument, called with no argument,
  with three, and with one.\<close>

theorem funcall_arity_witness:
  "pkl_typify1_ps_funcall
     (Function_type (Integral 32 True)
        [FUNC_TYPE_ARG (Integral 32 True) (Some ''a'') False False,
         FUNC_TYPE_ARG (Integral 32 True) (Some ''b'') True False])
     [] PKL_AST_EXP
   = Inl TOO_FEW_ARGUMENTS
   \<and> pkl_typify1_ps_funcall
       (Function_type (Integral 32 True)
          [FUNC_TYPE_ARG (Integral 32 True) (Some ''a'') False False,
           FUNC_TYPE_ARG (Integral 32 True) (Some ''b'') True False])
       [\<lparr>PKL_AST_FUNCALL_ARG_EXP = INTEGER 1 (Integral 32 True),
         PKL_AST_FUNCALL_ARG_NAME = None, PKL_AST_FUNCALL_ARG_FIRST_VARARG = False\<rparr>,
        \<lparr>PKL_AST_FUNCALL_ARG_EXP = INTEGER 2 (Integral 32 True),
         PKL_AST_FUNCALL_ARG_NAME = None, PKL_AST_FUNCALL_ARG_FIRST_VARARG = False\<rparr>,
        \<lparr>PKL_AST_FUNCALL_ARG_EXP = INTEGER 3 (Integral 32 True),
         PKL_AST_FUNCALL_ARG_NAME = None, PKL_AST_FUNCALL_ARG_FIRST_VARARG = False\<rparr>]
       PKL_AST_EXP
     = Inl TOO_MANY_ARGUMENTS
   \<and> pkl_typify1_ps_funcall
       (Function_type (Integral 32 True)
          [FUNC_TYPE_ARG (Integral 32 True) (Some ''a'') False False,
           FUNC_TYPE_ARG (Integral 32 True) (Some ''b'') True False])
       [\<lparr>PKL_AST_FUNCALL_ARG_EXP = INTEGER 1 (Integral 32 True),
         PKL_AST_FUNCALL_ARG_NAME = None, PKL_AST_FUNCALL_ARG_FIRST_VARARG = False\<rparr>]
       PKL_AST_EXP
     \<noteq> Inl TOO_FEW_ARGUMENTS"
proof -
  let ?fargs = "[FUNC_TYPE_ARG (Integral 32 True) (Some ''a'') False False,
                 FUNC_TYPE_ARG (Integral 32 True) (Some ''b'') True False]"
  let ?a1 = "\<lparr>PKL_AST_FUNCALL_ARG_EXP = INTEGER 1 (Integral 32 True),
         PKL_AST_FUNCALL_ARG_NAME = None, PKL_AST_FUNCALL_ARG_FIRST_VARARG = False\<rparr>"
  let ?a2 = "\<lparr>PKL_AST_FUNCALL_ARG_EXP = INTEGER 2 (Integral 32 True),
         PKL_AST_FUNCALL_ARG_NAME = None, PKL_AST_FUNCALL_ARG_FIRST_VARARG = False\<rparr>"
  let ?a3 = "\<lparr>PKL_AST_FUNCALL_ARG_EXP = INTEGER 3 (Integral 32 True),
         PKL_AST_FUNCALL_ARG_NAME = None, PKL_AST_FUNCALL_ARG_FIRST_VARARG = False\<rparr>"
  have a: "pkl_typify1_ps_funcall (Function_type (Integral 32 True) ?fargs) [] PKL_AST_EXP
             = Inl TOO_FEW_ARGUMENTS"
    using funcall_arity [of "Integral 32 True" ?fargs "[]" PKL_AST_EXP] by simp
  have b: "pkl_typify1_ps_funcall (Function_type (Integral 32 True) ?fargs) [?a1, ?a2, ?a3]
             PKL_AST_EXP
             = Inl TOO_MANY_ARGUMENTS"
    using funcall_arity [of "Integral 32 True" ?fargs "[?a1, ?a2, ?a3]" PKL_AST_EXP] by simp
  have c: "pkl_typify1_ps_funcall (Function_type (Integral 32 True) ?fargs) [?a1] PKL_AST_EXP
             \<noteq> Inl TOO_FEW_ARGUMENTS"
    using funcall_arity [of "Integral 32 True" ?fargs "[?a1]" PKL_AST_EXP] by simp
  from a b c show ?thesis by blast
qed

text \<open>
  C6, as stated: for every funcall of a function whose return type is void, the handler
  reports "function doesn't return a value" exactly when the parent of the funcall is an
  expression, a conditional expression, an array initializer, an indexer, a struct
  element, an offset, a cast, a map, a funcall, a funcall argument or a declaration.
  That fails for a funcall that an earlier check of the handler refuses: a void function
  with one mandatory argument, called without arguments as an operand of an expression,
  gets "too few arguments passed to function", and nothing else.
\<close>

theorem void_funcall_counterexample:
  "PKL_AST_TYPE_F_RTYPE
     (Function_type Void_type [FUNC_TYPE_ARG (Integral 32 True) (Some ''x'') False False])
     = Void_type
   \<and> pkl_typify1_ps_funcall
       (Function_type Void_type [FUNC_TYPE_ARG (Integral 32 True) (Some ''x'') False False])
       [] PKL_AST_EXP
     = Inl TOO_FEW_ARGUMENTS
   \<and> pkl_typify1_ps_funcall
       (Function_type Void_type [FUNC_TYPE_ARG (Integral 32 True) (Some ''x'') False False])
       [] PKL_AST_EXP
     \<noteq> Inl FUNCTION_RETURNS_NO_VALUE"
  by (simp add: pkl_typify1_ps_funcall_def pkl_typify1_ps_funcall_args_def
        PKL_AST_FUNCALL_NARG_def)

text \<open>
  C6, amended: for every funcall of a function whose return type is void and whose
  arguments pass the earlier checks of the handler (the number of the arguments, their
  names and their types), the handler reports "function doesn't return a value" exactly
  when the parent of the funcall is an expression, a conditional expression, an array
  initializer, an indexer, a struct element, an offset, a cast, a map, a funcall, a
  funcall argument or a declaration; under any other parent, such as an expression
  statement, the funcall is accepted, with the type void. A funcall that an earlier check
  refuses gets the diagnostic of that check only.
\<close>

theorem void_funcall_parent:
  "(pkl_typify1_ps_funcall (Function_type Void_type fargs) funcall_args parent_code
      = Inl FUNCTION_RETURNS_NO_VALUE
    \<longleftrightarrow> (\<exists>final_args.
           pkl_typify1_ps_funcall_args (Function_type Void_type fargs) funcall_args
             = Inr final_args)
        \<and> parent_code \<in>
            {PKL_AST_EXP, PKL_AST_COND_EXP, PKL_AST_ARRAY_INITIALIZER, PKL_AST_INDEXER,
             PKL_AST_STRUCT_ELEM, PKL_AST_OFFSET, PKL_AST_CAST, PKL_AST_MAP,
             PKL_AST_FUNCALL, PKL_AST_FUNCALL_ARG, PKL_AST_DECL})
   \<and> ((\<exists>r. pkl_typify1_ps_funcall (Function_type Void_type fargs) funcall_args parent_code
              = Inr r)
    \<longleftrightarrow> (\<exists>final_args.
           pkl_typify1_ps_funcall_args (Function_type Void_type fargs) funcall_args
             = Inr final_args)
        \<and> parent_code \<notin>
            {PKL_AST_EXP, PKL_AST_COND_EXP, PKL_AST_ARRAY_INITIALIZER, PKL_AST_INDEXER,
             PKL_AST_STRUCT_ELEM, PKL_AST_OFFSET, PKL_AST_CAST, PKL_AST_MAP,
             PKL_AST_FUNCALL, PKL_AST_FUNCALL_ARG, PKL_AST_DECL})
   \<and> (\<forall>t final_args.
         pkl_typify1_ps_funcall (Function_type Void_type fargs) funcall_args parent_code
           = Inr (t, final_args)
         \<longrightarrow> t = Void_type
             \<and> pkl_typify1_ps_funcall_args (Function_type Void_type fargs) funcall_args
                 = Inr final_args)"
proof -
  show ?thesis
  proof (cases "pkl_typify1_ps_funcall_args (Function_type Void_type fargs) funcall_args")
    case (Inl e)
    from funcall_args_cases [OF Inl] have "e \<noteq> FUNCTION_RETURNS_NO_VALUE"
      by auto
    with Inl show ?thesis
      by (simp add: pkl_typify1_ps_funcall_def)
  next
    case (Inr final_args)
    then show ?thesis
      by (auto simp: pkl_typify1_ps_funcall_def)
  qed
qed

text \<open>The call \<open>g (0)\<close> of a void function of one argument, as an operand of an
  expression and as an expression statement.\<close>

theorem void_funcall_parent_witness:
  "pkl_typify1_ps_funcall
     (Function_type Void_type [FUNC_TYPE_ARG (Integral 32 True) (Some ''x'') False False])
     [\<lparr>PKL_AST_FUNCALL_ARG_EXP = INTEGER 0 (Integral 32 True),
       PKL_AST_FUNCALL_ARG_NAME = None,
       PKL_AST_FUNCALL_ARG_FIRST_VARARG = False\<rparr>]
     PKL_AST_EXP
   = Inl FUNCTION_RETURNS_NO_VALUE
   \<and> (\<exists>r. pkl_typify1_ps_funcall
       (Function_type Void_type [FUNC_TYPE_ARG (Integral 32 True) (Some ''x'') False False])
       [\<lparr>PKL_AST_FUNCALL_ARG_EXP = INTEGER 0 (Integral 32 True),
         PKL_AST_FUNCALL_ARG_NAME = None,
         PKL_AST_FUNCALL_ARG_FIRST_VARARG = False\<rparr>]
       PKL_AST_EXP_STMT
     = Inr r)"
proof -
  let ?g = "Function_type Void_type [FUNC_TYPE_ARG (Integral 32 True) (Some ''x'') False False]"
  let ?aa = "\<lparr>PKL_AST_FUNCALL_ARG_EXP = INTEGER 0 (Integral 32 True),
       PKL_AST_FUNCALL_ARG_NAME = None,
       PKL_AST_FUNCALL_ARG_FIRST_VARARG = False\<rparr>"
  have args: "pkl_typify1_ps_funcall_args ?g [?aa] = Inr [?aa]"
    by (simp add: pkl_typify1_ps_funcall_args_def PKL_AST_FUNCALL_NARG_def
          PKL_AST_TYPE_F_NARG_def pkl_ast_type_equal_def)
  have a: "pkl_typify1_ps_funcall ?g [?aa] PKL_AST_EXP = Inl FUNCTION_RETURNS_NO_VALUE"
    using void_funcall_parent
            [of "[FUNC_TYPE_ARG (Integral 32 True) (Some ''x'') False False]" "[?aa]"
                PKL_AST_EXP]
          args
    by simp
  have b: "\<exists>r. pkl_typify1_ps_funcall ?g [?aa] PKL_AST_EXP_STMT = Inr r"
    using void_funcall_parent
            [of "[FUNC_TYPE_ARG (Integral 32 True) (Some ''x'') False False]" "[?aa]"
                PKL_AST_EXP_STMT]
          args
    by simp
  from a b show ?thesis by blast
qed

subsection \<open>The types in a tree\<close>









subsection \<open>The types the handlers attach\<close>




























subsection \<open>The types in the tree of a program\<close>













subsection \<open>Integral types\<close>



end
